theory Spec2Isabelle
  imports Complex_Main
begin

section \<open>The gravity simulator of App.tsx\<close>

text \<open>
  The component \<^verbatim>\<open>GravitySimulator\<close> (src/my-vue-app/src/App.tsx) drops a sphere onto a
  ground plane. Everything that moves lives in the closure of its \<^verbatim>\<open>useEffect\<close>: the
  height of the sphere, the two locals \<^verbatim>\<open>velocity\<close> and \<^verbatim>\<open>isResting\<close>, and the calls the
  frame callback \<^verbatim>\<open>animate\<close> makes to its host (the frame scheduler, the clock and the
  renderer).

  Numbers are JavaScript numbers in the source. They are modelled as \<^typ>\<open>real\<close>: the
  arithmetic below is exact, and rounding of IEEE doubles is not modelled.
\<close>

subsection \<open>Parameters and state\<close>

text \<open>
  The four \<^verbatim>\<open>useState\<close> values (lines 6 to 9). They are constants of one run of the effect:
  the closure reads them and never writes them.
\<close>

record params =
  restitution :: real
  gravity :: real
  sphereRadius :: real
  friction :: real

text \<open>The initial values passed to \<^verbatim>\<open>useState\<close>.\<close>

definition default_params :: params where
  "default_params = \<lparr>restitution = 0.7, gravity = 9.8, sphereRadius = 1, friction = 0.03\<rparr>"

text \<open>Line 78: \<^verbatim>\<open>const restThreshold = 0.01\<close>.\<close>

definition restThreshold :: real where
  "restThreshold = 0.01"

text \<open>
  The literal \<^verbatim>\<open>10\<close> of lines 71 and 129 (\<^verbatim>\<open>sphere.position.y = 10; // Start from height\<close>)
  and the literal \<^verbatim>\<open>0.1\<close> of line 96 (the cap of the time step). The source does not name
  them; the names are the specification's.
\<close>

definition dropHeight :: real where
  "dropHeight = 10"

definition maxDelta :: real where
  "maxDelta = 0.1"

text \<open>
  The calls \<^verbatim>\<open>animate\<close> makes to its host, in the order it makes them:
  \<^verbatim>\<open>requestAnimationFrame(animate)\<close>, \<^verbatim>\<open>clock.getDelta()\<close> and
  \<^verbatim>\<open>renderer.render(scene, camera)\<close>. A render shows the scene as it is at that moment,
  so the event carries the height of the sphere it draws.
\<close>

datatype effect = RequestAnimationFrame | ClockGetDelta | Render real

text \<open>
  The mutable state of one session: \<^verbatim>\<open>sphere.position.y\<close>, \<^verbatim>\<open>velocity\<close>, \<^verbatim>\<open>isResting\<close>, and
  the log of the host calls made so far (oldest first).
\<close>

record session =
  position_y :: real
  velocity :: real
  isResting :: bool
  effects :: "effect list"

text \<open>Lines 71, 76 and 77: the state when the effect has been set up.\<close>

definition session_start :: session where
  "session_start = \<lparr>position_y = 10, velocity = 0, isResting = False, effects = []\<rparr>"

subsection \<open>The frame callback\<close>

text \<open>
  Lines 98 to 102, with \<open>delta\<close> the capped time step:
  \<^verbatim>\<open>velocity -= gravity * delta; sphere.position.y += velocity * delta;\<close>
  The position is advanced with the velocity already updated.
\<close>

definition integrate :: "params \<Rightarrow> real \<Rightarrow> session \<Rightarrow> session" where
  "integrate p delta s =
     (let s1 = s\<lparr>velocity := velocity s - gravity p * delta\<rparr>
      in s1\<lparr>position_y := position_y s1 + velocity s1 * delta\<rparr>)"

text \<open>
  Lines 104 to 119, the ground collision:
  \<^verbatim>\<open>
  if (sphere.position.y < sphereRadius) {
    sphere.position.y = sphereRadius;
    if (Math.abs(velocity) > restThreshold) {
      velocity = -velocity * restitution;
      velocity *= 1 - friction;
    } else {
      velocity = 0;
      isResting = true;
    }
  }
  \<close>
\<close>

definition resolve :: "params \<Rightarrow> session \<Rightarrow> session" where
  "resolve p s =
     (if position_y s < sphereRadius p then
        (let s1 = s\<lparr>position_y := sphereRadius p\<rparr>
         in if \<bar>velocity s1\<bar> > restThreshold then
              (let s2 = s1\<lparr>velocity := - velocity s1 * restitution p\<rparr>
               in s2\<lparr>velocity := velocity s2 * (1 - friction p)\<rparr>)
            else s1\<lparr>velocity := 0, isResting := True\<rparr>)
      else s)"

definition emit :: "effect \<Rightarrow> session \<Rightarrow> session" where
  "emit e s = s\<lparr>effects := effects s @ [e]\<rparr>"

text \<open>
  Lines 92 to 123. \<open>raw\<close> is what \<^verbatim>\<open>clock.getDelta()\<close> returns when it is called (the clock
  is the host's; the callback only reads it).
  \<^verbatim>\<open>
  const animate = () => {
    requestAnimationFrame(animate);
    if (!isResting) {
      const delta = Math.min(clock.getDelta(), 0.1);
      ... gravity, position, collision ...
    }
    renderer.render(scene, camera);
  };
  \<close>
\<close>

definition animate :: "params \<Rightarrow> real \<Rightarrow> session \<Rightarrow> session" where
  "animate p raw s =
     (let s0 = emit RequestAnimationFrame s;
          s1 = (if \<not> isResting s0 then
                  (let sc = emit ClockGetDelta s0;
                       delta = min raw 0.1
                   in resolve p (integrate p delta sc))
                else s0)
      in emit (Render (position_y s1)) s1)"

text \<open>
  Lines 128 to 132:
  \<^verbatim>\<open>sphere.position.y = 10; velocity = 0; isResting = false;\<close>
\<close>

definition resetSimulation :: "session \<Rightarrow> session" where
  "resetSimulation s = s\<lparr>position_y := 10, velocity := 0, isResting := False\<rparr>"

text \<open>Successive frames, one raw clock reading for each.\<close>

fun run :: "params \<Rightarrow> real list \<Rightarrow> session \<Rightarrow> session" where
  "run p [] s = s"
| "run p (raw # raws) s = run p raws (animate p raw s)"

text \<open>
  The states a session can be in: the start, and whatever frames and presses of the reset
  button make of it, in any order.
\<close>

inductive reachable :: "params \<Rightarrow> session \<Rightarrow> bool" for p :: params where
  start: "reachable p session_start"
| frame: "reachable p s \<Longrightarrow> reachable p (animate p raw s)"
| reset: "reachable p s \<Longrightarrow> reachable p (resetSimulation s)"

subsection \<open>Bounces, and the physics without the log\<close>

text \<open>
  A frame makes contact when it simulates and the integrated height is below the radius
  (the branch of line 105 is taken); the contact is a bounce when the speed is above the
  rest threshold (the branch of line 109). The speed the sphere leaves a bounce with is
  the absolute velocity after that frame.
\<close>

definition contact :: "params \<Rightarrow> real \<Rightarrow> session \<Rightarrow> bool" where
  "contact p raw s \<longleftrightarrow>
     \<not> isResting s \<and> position_y (integrate p (min raw 0.1) s) < sphereRadius p"

definition bounce :: "params \<Rightarrow> real \<Rightarrow> session \<Rightarrow> bool" where
  "bounce p raw s \<longleftrightarrow>
     contact p raw s \<and> \<bar>velocity (integrate p (min raw 0.1) s)\<bar> > restThreshold"

text \<open>
  Height, velocity and resting flag of a session, and what one frame and a run of frames
  do to these three (derived from \<open>animate\<close> below, lemma \<open>physics_animate\<close>): long runs
  are evaluated on the triple, without the growing log.
\<close>

definition physics :: "session \<Rightarrow> real \<times> real \<times> bool" where
  "physics s = (position_y s, velocity s, isResting s)"

fun frame_physics :: "params \<Rightarrow> real \<Rightarrow> real \<times> real \<times> bool \<Rightarrow> real \<times> real \<times> bool" where
  "frame_physics p raw (y, v, r) =
     (if r then (y, v, r)
      else
        (let d = min raw 0.1; v1 = v - gravity p * d; y1 = y + v1 * d
         in if y1 < sphereRadius p then
              (if \<bar>v1\<bar> > restThreshold
               then (sphereRadius p, - v1 * restitution p * (1 - friction p), False)
               else (sphereRadius p, 0, True))
            else (y1, v1, False)))"

fun frames_physics :: "params \<Rightarrow> real list \<Rightarrow> real \<times> real \<times> bool \<Rightarrow> real \<times> real \<times> bool" where
  "frames_physics p [] x = x"
| "frames_physics p (raw # raws) x = frames_physics p raws (frame_physics p raw x)"

subsection \<open>Basic facts\<close>

lemma emit_fields [simp]:
  "position_y (emit e s) = position_y s"
  "velocity (emit e s) = velocity s"
  "isResting (emit e s) = isResting s"
  "effects (emit e s) = effects s @ [e]"
  by (simp_all add: emit_def)

lemma integrate_fields [simp]:
  "velocity (integrate p d s) = velocity s - gravity p * d"
  "position_y (integrate p d s) = position_y s + (velocity s - gravity p * d) * d"
  "isResting (integrate p d s) = isResting s"
  "effects (integrate p d s) = effects s"
  by (simp_all add: integrate_def Let_def)

lemma resolve_effects [simp]: "effects (resolve p s) = effects s"
  by (simp add: resolve_def Let_def)

lemma resolve_position:
  "position_y (resolve p s) = (if position_y s < sphereRadius p then sphereRadius p else position_y s)"
  by (simp add: resolve_def Let_def)

lemma resolve_velocity:
  "velocity (resolve p s) =
     (if position_y s < sphereRadius p then
        (if \<bar>velocity s\<bar> > restThreshold then - velocity s * restitution p * (1 - friction p) else 0)
      else velocity s)"
  by (simp add: resolve_def Let_def)

lemma resolve_isResting:
  "isResting (resolve p s) =
     (if position_y s < sphereRadius p \<and> \<not> \<bar>velocity s\<bar> > restThreshold then True else isResting s)"
  by (simp add: resolve_def Let_def)

lemma animate_resting_fields:
  assumes "isResting s"
  shows "position_y (animate p raw s) = position_y s"
    and "velocity (animate p raw s) = velocity s"
    and "isResting (animate p raw s)"
  using assms by (simp_all add: animate_def Let_def)

lemma animate_moving_fields:
  assumes "\<not> isResting s"
  shows "position_y (animate p raw s) = position_y (resolve p (integrate p (min raw 0.1) s))"
    and "velocity (animate p raw s) = velocity (resolve p (integrate p (min raw 0.1) s))"
    and "isResting (animate p raw s) = isResting (resolve p (integrate p (min raw 0.1) s))"
  using assms by (simp_all add: animate_def Let_def resolve_position resolve_velocity resolve_isResting)

lemma physics_animate: "physics (animate p raw s) = frame_physics p raw (physics s)"
proof (cases "isResting s")
  case True
  then show ?thesis
    by (simp add: physics_def animate_resting_fields)
next
  case False
  then show ?thesis
    by (simp add: physics_def animate_moving_fields resolve_position resolve_velocity
        resolve_isResting Let_def)
qed

lemma physics_run: "physics (run p raws s) = frames_physics p raws (physics s)"
  by (induction raws arbitrary: s) (simp_all add: physics_animate)

lemma physics_session_start: "physics session_start = (10, 0, False)"
  by (simp add: physics_def session_start_def)

lemma run_resting:
  "isResting s \<Longrightarrow>
     position_y (run p raws s) = position_y s \<and>
     velocity (run p raws s) = velocity s \<and>
     isResting (run p raws s)"
proof (induction raws arbitrary: s)
  case Nil
  then show ?case by simp
next
  case (Cons raw raws)
  from Cons.prems have "isResting (animate p raw s)"
    by (rule animate_resting_fields)
  from Cons.IH [OF this] show ?case
    using Cons.prems by (simp add: animate_resting_fields)
qed

lemma run_append: "run p (xs @ ys) s = run p ys (run p xs s)"
  by (induction xs arbitrary: s) simp_all

lemma reachable_run: "reachable p s \<Longrightarrow> reachable p (run p raws s)"
  by (induction raws arbitrary: s) (simp_all add: reachable.frame)

lemma run_replicate_add:
  "run p (replicate (m + k) x) s = run p (replicate k x) (run p (replicate m x) s)"
  by (simp only: replicate_add run_append)

lemma run_replicate_Suc:
  "run p (replicate (Suc m) x) s = animate p x (run p (replicate m x) s)"
proof -
  have "replicate (Suc m) x = replicate m x @ [x]"
    by (simp add: replicate_append_same)
  then show ?thesis
    by (simp only: run_append run.simps)
qed

lemma physics_fields:
  "physics s = (y, v, r) \<Longrightarrow> position_y s = y \<and> velocity s = v \<and> isResting s = r"
  by (simp add: physics_def)

subsection \<open>The collision resolver\<close>

text \<open>
  Claim C1. The collision code does nothing when the sphere is at or above its radius.
  Below it, the height is set to the radius; a speed above the rest threshold is replaced
  by \<open>- velocity * restitution * (1 - friction)\<close> (the two assignments of the source
  taken together), and a speed at or below the threshold is set to zero with the resting
  flag raised. A contact at velocity \<open>-1\<close> with restitution \<open>0.7\<close> and friction \<open>0.03\<close>
  leaves the velocity \<open>0.679\<close>.
\<close>

theorem resolve_cases:
  "(position_y s \<ge> sphereRadius p \<longrightarrow> resolve p s = s) \<and>
   (position_y s < sphereRadius p \<and> \<bar>velocity s\<bar> > restThreshold \<longrightarrow>
      resolve p s = s\<lparr>position_y := sphereRadius p,
                        velocity := - velocity s * restitution p * (1 - friction p)\<rparr>) \<and>
   (position_y s < sphereRadius p \<and> \<bar>velocity s\<bar> \<le> restThreshold \<longrightarrow>
      resolve p s = s\<lparr>position_y := sphereRadius p, velocity := 0, isResting := True\<rparr>) \<and>
   (position_y s < sphereRadius p \<and> velocity s = - 1 \<and> restitution p = 0.7 \<and> friction p = 0.03 \<longrightarrow>
      velocity (resolve p s) = 0.679)"
proof (intro conjI impI)
  assume "sphereRadius p \<le> position_y s"
  then show "resolve p s = s"
    by (simp add: resolve_def)
next
  assume "position_y s < sphereRadius p \<and> restThreshold < \<bar>velocity s\<bar>"
  then show "resolve p s = s\<lparr>position_y := sphereRadius p,
      velocity := - velocity s * restitution p * (1 - friction p)\<rparr>"
    by (simp add: resolve_def Let_def)
next
  assume "position_y s < sphereRadius p \<and> \<bar>velocity s\<bar> \<le> restThreshold"
  then show "resolve p s = s\<lparr>position_y := sphereRadius p, velocity := 0, isResting := True\<rparr>"
    by (simp add: resolve_def Let_def)
next
  assume a: "position_y s < sphereRadius p \<and> velocity s = - 1 \<and> restitution p = 0.7 \<and>
    friction p = 0.03"
  then have "velocity (resolve p s) = - (- 1) * 0.7 * (1 - 0.03)"
    by (simp only: resolve_velocity restThreshold_def) simp
  then show "velocity (resolve p s) = 0.679"
    by simp
qed

theorem resolve_cases_witness:
  "resolve default_params \<lparr>position_y = 2, velocity = - 3, isResting = False, effects = []\<rparr>
     = \<lparr>position_y = 2, velocity = - 3, isResting = False, effects = []\<rparr> \<and>
   resolve default_params \<lparr>position_y = 0.99, velocity = - 1, isResting = False, effects = []\<rparr>
     = \<lparr>position_y = 1, velocity = 0.679, isResting = False, effects = []\<rparr> \<and>
   resolve default_params \<lparr>position_y = 0.9999, velocity = - 0.005, isResting = False, effects = []\<rparr>
     = \<lparr>position_y = 1, velocity = 0, isResting = True, effects = []\<rparr>"
  using
    resolve_cases [where p = default_params
      and s = "\<lparr>position_y = 2, velocity = - 3, isResting = False, effects = []\<rparr>"]
    resolve_cases [where p = default_params
      and s = "\<lparr>position_y = 0.99, velocity = - 1, isResting = False, effects = []\<rparr>"]
    resolve_cases [where p = default_params
      and s = "\<lparr>position_y = 0.9999, velocity = - 0.005, isResting = False, effects = []\<rparr>"]
  by (simp add: default_params_def restThreshold_def)

text \<open>
  Claim C3. After the collision code has run the sphere is at or above its radius, and
  exactly at it when it was below (contact); so the height at the end of every frame that
  simulates is at least the radius, and is the radius when the integrated height was
  below it.
\<close>

theorem resolve_clamps:
  "position_y (resolve p s) \<ge> sphereRadius p \<and>
   (position_y s < sphereRadius p \<longrightarrow> position_y (resolve p s) = sphereRadius p) \<and>
   (\<not> isResting s \<longrightarrow> position_y (animate p raw s) \<ge> sphereRadius p) \<and>
   (\<not> isResting s \<and> position_y (integrate p (min raw 0.1) s) < sphereRadius p \<longrightarrow>
      position_y (animate p raw s) = sphereRadius p)"
  by (simp add: animate_moving_fields resolve_position)

theorem resolve_clamps_witness:
  "position_y (resolve default_params
      \<lparr>position_y = 0.5, velocity = - 4, isResting = False, effects = []\<rparr>) = 1 \<and>
   position_y (animate default_params 0.016
      \<lparr>position_y = 1.01, velocity = - 4, isResting = False, effects = []\<rparr>) = 1"
  using
    resolve_clamps [where p = default_params and raw = 0
      and s = "\<lparr>position_y = 0.5, velocity = - 4, isResting = False, effects = []\<rparr>"]
    resolve_clamps [where p = default_params and raw = "0.016"
      and s = "\<lparr>position_y = 1.01, velocity = - 4, isResting = False, effects = []\<rparr>"]
  by (simp add: default_params_def)

text \<open>
  Claim C10. With restitution and friction both in \<open>[0, 1]\<close> the collision code never
  makes the sphere faster: the absolute value of the velocity does not grow.
\<close>

theorem resolve_speed_le:
  assumes "0 \<le> restitution p" "restitution p \<le> 1" "0 \<le> friction p" "friction p \<le> 1"
  shows "\<bar>velocity (resolve p s)\<bar> \<le> \<bar>velocity s\<bar>"
proof -
  let ?k = "restitution p * (1 - friction p)"
  have k0: "0 \<le> ?k" using assms by simp
  have "?k \<le> 1 * 1"
    using assms by (intro mult_mono) simp_all
  then have k1: "?k \<le> 1" by simp
  have "- velocity s * restitution p * (1 - friction p) = - velocity s * ?k"
    by (simp add: mult.assoc)
  then have "\<bar>- velocity s * restitution p * (1 - friction p)\<bar> = \<bar>velocity s\<bar> * \<bar>?k\<bar>"
    by (simp only: abs_mult abs_minus)
  also have "\<dots> = \<bar>velocity s\<bar> * ?k"
    using k0 by (simp only: abs_of_nonneg)
  also have "\<dots> \<le> \<bar>velocity s\<bar> * 1"
    using k1 by (intro mult_left_mono) simp_all
  finally have "\<bar>- velocity s * restitution p * (1 - friction p)\<bar> \<le> \<bar>velocity s\<bar>"
    by simp
  then show ?thesis
    by (simp add: resolve_velocity)
qed

theorem resolve_speed_le_witness:
  "\<bar>velocity (resolve default_params
      \<lparr>position_y = 0.99, velocity = - 1, isResting = False, effects = []\<rparr>)\<bar> \<le> \<bar>- 1 :: real\<bar>"
  using resolve_speed_le [where p = default_params
      and s = "\<lparr>position_y = 0.99, velocity = - 1, isResting = False, effects = []\<rparr>"]
  by (simp add: default_params_def)

subsection \<open>The integrator and the time step\<close>

text \<open>
  Claim C2. One integration step first lowers the velocity by \<open>gravity * dt\<close> and then
  moves the sphere by the new velocity times \<open>dt\<close>; the resting flag is not touched. With
  gravity \<open>9.8\<close> and \<open>dt = 0.016\<close>, from height \<open>10\<close> at velocity \<open>0\<close>, the step gives velocity
  \<open>-0.1568\<close> and height \<open>9.9974912\<close>, and that is also the state after the first whole
  frame of a session with the default parameters (no collision).
\<close>

theorem integrate_step:
  "velocity (integrate p dt s) = velocity s - gravity p * dt \<and>
   position_y (integrate p dt s) = position_y s + velocity (integrate p dt s) * dt \<and>
   isResting (integrate p dt s) = isResting s \<and>
   (gravity p = 9.8 \<and> position_y s = 10 \<and> velocity s = 0 \<longrightarrow>
      velocity (integrate p 0.016 s) = - 0.1568 \<and>
      position_y (integrate p 0.016 s) = 9.9974912) \<and>
   velocity (animate default_params 0.016 session_start) = - 0.1568 \<and>
   position_y (animate default_params 0.016 session_start) = 9.9974912 \<and>
   \<not> isResting (animate default_params 0.016 session_start)"
proof -
  have scenario: "velocity (integrate p 0.016 s) = - 0.1568 \<and>
      position_y (integrate p 0.016 s) = 9.9974912"
    if "gravity p = 9.8 \<and> position_y s = 10 \<and> velocity s = 0"
  proof -
    have "velocity (integrate p 0.016 s) = 0 - 9.8 * 0.016"
      and "position_y (integrate p 0.016 s) = 10 + (0 - 9.8 * 0.016) * 0.016"
      using that by (simp_all only: integrate_fields)
    then show ?thesis by simp
  qed
  have first_frame: "velocity (animate default_params 0.016 session_start) = - 0.1568 \<and>
      position_y (animate default_params 0.016 session_start) = 9.9974912 \<and>
      \<not> isResting (animate default_params 0.016 session_start)"
    by (simp add: animate_moving_fields resolve_position resolve_velocity resolve_isResting
        session_start_def default_params_def)
  show ?thesis
    using scenario first_frame by simp
qed

theorem integrate_step_witness:
  "velocity (integrate default_params 0.016 session_start) = - 0.1568 \<and>
   position_y (integrate default_params 0.016 session_start) = 9.9974912"
  using integrate_step [where p = default_params and s = session_start and dt = 0]
  by (simp add: default_params_def session_start_def)

text \<open>
  Claim C8. The time step a frame integrates with is the smaller of the clock's raw
  reading and the cap \<open>maxDelta = 0.1\<close>: a non-resting frame is the collision code applied
  to the integration over \<open>min raw maxDelta\<close>, a frame behaves on a raw reading as on the
  capped one, and every reading above the cap gives the frame of the cap itself.
\<close>

theorem delta_cap:
  "(\<not> isResting s \<longrightarrow>
      position_y (animate p raw s) = position_y (resolve p (integrate p (min raw maxDelta) s)) \<and>
      velocity (animate p raw s) = velocity (resolve p (integrate p (min raw maxDelta) s)) \<and>
      isResting (animate p raw s) = isResting (resolve p (integrate p (min raw maxDelta) s))) \<and>
   animate p raw s = animate p (min raw maxDelta) s \<and>
   (raw > maxDelta \<longrightarrow> min raw maxDelta = maxDelta \<and> animate p raw s = animate p maxDelta s)"
proof -
  have capped: "min (min raw 0.1) 0.1 = min raw (0.1 :: real)"
    by simp
  have same: "animate p raw s = animate p (min raw maxDelta) s"
    unfolding animate_def maxDelta_def capped ..
  have above: "min raw maxDelta = maxDelta \<and> animate p raw s = animate p maxDelta s"
    if "raw > maxDelta"
  proof -
    from that have "min raw maxDelta = maxDelta" by simp
    with same show ?thesis by simp
  qed
  show ?thesis
    using same above by (simp add: animate_moving_fields maxDelta_def)
qed

theorem delta_cap_witness:
  "velocity (animate default_params 0.25 session_start) = - 0.98 \<and>
   position_y (animate default_params 0.25 session_start) = 9.902 \<and>
   animate default_params 0.25 session_start = animate default_params maxDelta session_start"
  using delta_cap [where p = default_params and s = session_start and raw = "0.25"]
  by (simp add: session_start_def default_params_def maxDelta_def animate_moving_fields
      resolve_position resolve_velocity)

subsection \<open>Rest and reset\<close>

text \<open>
  Claim C5. Once the resting flag is set, any number of further frames (whatever the clock
  reads, and without a reset) leaves the height, the velocity and the flag as they are.
\<close>

theorem rest_is_stable:
  "isResting s \<Longrightarrow>
     position_y (run p raws s) = position_y s \<and>
     velocity (run p raws s) = velocity s \<and>
     isResting (run p raws s)"
  by (rule run_resting)

theorem rest_is_stable_witness:
  "position_y (run default_params [0.016, 0.5, 0.016]
      \<lparr>position_y = 1, velocity = 0, isResting = True, effects = []\<rparr>) = 1 \<and>
   velocity (run default_params [0.016, 0.5, 0.016]
      \<lparr>position_y = 1, velocity = 0, isResting = True, effects = []\<rparr>) = 0 \<and>
   isResting (run default_params [0.016, 0.5, 0.016]
      \<lparr>position_y = 1, velocity = 0, isResting = True, effects = []\<rparr>)"
  using rest_is_stable [where p = default_params and raws = "[0.016, 0.5, 0.016]"
      and s = "\<lparr>position_y = 1, velocity = 0, isResting = True, effects = []\<rparr>"]
  by simp

text \<open>
  Claim C7. Whatever the state before, a reset puts the sphere at the drop height with
  velocity zero and the resting flag cleared. It makes no call to the host (the log of
  clock reads, frame requests and renders is as before), and the parameters are not
  among the things it can write. A reset of a state that is already reset changes
  nothing; the start of the session is such a state.
\<close>

theorem reset_correct:
  "position_y (resetSimulation s) = dropHeight \<and>
   velocity (resetSimulation s) = 0 \<and>
   isResting (resetSimulation s) = False \<and>
   effects (resetSimulation s) = effects s \<and>
   resetSimulation (resetSimulation s) = resetSimulation s \<and>
   resetSimulation session_start = session_start"
  by (simp add: resetSimulation_def dropHeight_def session_start_def)

subsection \<open>The order of a frame\<close>

text \<open>
  Claim C9, as the code has it. Every frame first asks the host for the next frame. A
  frame that is not resting then reads the clock, integrates over the capped reading,
  runs the collision code, and draws the resulting height, in that order. A resting frame
  does not read the clock: it only draws the unchanged height.
\<close>

theorem frame_order:
  "effects (animate p raw s) = effects s @
     (if isResting s then [RequestAnimationFrame, Render (position_y s)]
      else [RequestAnimationFrame, ClockGetDelta,
            Render (position_y (resolve p (integrate p (min raw maxDelta) s)))])"
  by (simp add: animate_def Let_def maxDelta_def resolve_position)

theorem frame_order_witness:
  "effects (animate default_params 0.016 session_start)
     = [RequestAnimationFrame, ClockGetDelta, Render 9.9974912] \<and>
   effects (animate default_params 0.016
       \<lparr>position_y = 1, velocity = 0, isResting = True, effects = []\<rparr>)
     = [RequestAnimationFrame, Render 1]"
  using
    frame_order [where p = default_params and raw = "0.016" and s = session_start]
    frame_order [where p = default_params and raw = "0.016"
      and s = "\<lparr>position_y = 1, velocity = 0, isResting = True, effects = []\<rparr>"]
  by (simp add: session_start_def default_params_def maxDelta_def resolve_position)

text \<open>
  Claim C9 as the specification states it has the clock read on every frame, resting
  frames included. The read is inside the \<^verbatim>\<open>if (!isResting)\<close> block of line 95: on a
  resting frame the callback makes two host calls, and neither is the clock read.
\<close>

theorem resting_frame_skips_clock:
  "effects (animate default_params 0.016
      \<lparr>position_y = 1, velocity = 0, isResting = True, effects = []\<rparr>)
     = [RequestAnimationFrame, Render 1] \<and>
   ClockGetDelta \<notin> set (effects (animate default_params 0.016
      \<lparr>position_y = 1, velocity = 0, isResting = True, effects = []\<rparr>))"
  by (simp add: animate_def Let_def)

subsection \<open>The resting invariant\<close>

text \<open>
  Claim C4. In every state a session can reach from its start by frames and resets, a set
  resting flag means velocity zero and the sphere exactly at its radius.
\<close>

theorem resting_invariant:
  "reachable p s \<Longrightarrow> isResting s \<Longrightarrow> velocity s = 0 \<and> position_y s = sphereRadius p"
proof (induction rule: reachable.induct)
  case start
  then show ?case by (simp add: session_start_def)
next
  case (frame s raw)
  show ?case
  proof (cases "isResting s")
    case True
    with frame.IH show ?thesis
      by (simp add: animate_resting_fields)
  next
    case False
    with frame.prems show ?thesis
      by (simp add: animate_moving_fields resolve_position resolve_velocity resolve_isResting
          split: if_splits)
  qed
next
  case (reset s)
  then show ?case by (simp add: resetSimulation_def)
qed

text \<open>
  With the default parameters and a clock that reads \<open>0.02\<close> on every frame, the sphere
  comes to rest in the 337th frame of the session.
\<close>

lemma rest_reached:
  "frames_physics default_params (replicate 337 0.02) (10, 0, False) = (1, 0, True)"
  by (simp add: default_params_def restThreshold_def eval_nat_numeral)

theorem resting_invariant_witness:
  "reachable default_params (run default_params (replicate 337 0.02) session_start) \<and>
   isResting (run default_params (replicate 337 0.02) session_start) \<and>
   velocity (run default_params (replicate 337 0.02) session_start) = 0 \<and>
   position_y (run default_params (replicate 337 0.02) session_start) = 1"
proof -
  have reach: "reachable default_params (run default_params (replicate 337 0.02) session_start)"
    by (rule reachable_run) (rule reachable.start)
  have "physics (run default_params (replicate 337 0.02) session_start) = (1, 0, True)"
    by (simp only: physics_run physics_session_start rest_reached)
  then have rest: "isResting (run default_params (replicate 337 0.02) session_start)"
    by (simp add: physics_def)
  from resting_invariant [OF reach rest] reach rest show ?thesis
    by (simp add: default_params_def)
qed

subsection \<open>Energy decay\<close>

text \<open>
  One bounce by itself does lose speed: with restitution in \<open>(0, 1)\<close> and friction in
  \<open>[0, 1)\<close> the sphere leaves a bounce slower than it arrived, and a contact at or below
  the rest threshold sets the resting flag in that same frame.
\<close>

lemma bounce_damps:
  assumes "\<not> isResting s"
    and "position_y (integrate p (min raw 0.1) s) < sphereRadius p"
    and "\<bar>velocity (integrate p (min raw 0.1) s)\<bar> > restThreshold"
    and "0 < restitution p" "restitution p < 1" "0 \<le> friction p" "friction p < 1"
  shows "\<bar>velocity (animate p raw s)\<bar> < \<bar>velocity (integrate p (min raw 0.1) s)\<bar>"
    and "0 < \<bar>velocity (animate p raw s)\<bar>"
proof -
  define v where "v = velocity (integrate p (min raw 0.1) s)"
  define k where "k = restitution p * (1 - friction p)"
  from assms(3) have fast: "\<bar>v\<bar> > restThreshold"
    by (simp add: v_def)
  from assms(1-3) have "velocity (animate p raw s) = - v * restitution p * (1 - friction p)"
    by (simp add: v_def animate_moving_fields resolve_velocity)
  then have vel: "velocity (animate p raw s) = - v * k"
    by (simp add: k_def)
  have k0: "0 < k"
    using assms by (simp add: k_def)
  have "k \<le> restitution p * 1"
    unfolding k_def using assms by (intro mult_left_mono) simp_all
  with assms(5) have k1: "k < 1"
    by linarith
  have "0 < restThreshold"
    by (simp add: restThreshold_def)
  with fast have v0: "0 < \<bar>v\<bar>"
    by linarith
  from vel have "\<bar>velocity (animate p raw s)\<bar> = \<bar>v\<bar> * \<bar>k\<bar>"
    by (simp only: abs_mult abs_minus)
  with k0 have eq: "\<bar>velocity (animate p raw s)\<bar> = \<bar>v\<bar> * k"
    by simp
  have "\<bar>v\<bar> * k < \<bar>v\<bar> * 1"
    using k1 v0 by (intro mult_strict_left_mono)
  with eq show "\<bar>velocity (animate p raw s)\<bar> < \<bar>velocity (integrate p (min raw 0.1) s)\<bar>"
    by (simp add: v_def)
  from k0 v0 have "0 < \<bar>v\<bar> * k"
    by (rule mult_pos_pos [rotated])
  with eq show "0 < \<bar>velocity (animate p raw s)\<bar>"
    by simp
qed

lemma slow_contact_rests:
  assumes "\<not> isResting s"
    and "position_y (integrate p (min raw 0.1) s) < sphereRadius p"
    and "\<bar>velocity (integrate p (min raw 0.1) s)\<bar> \<le> restThreshold"
  shows "isResting (animate p raw s)"
  using assms by (simp add: animate_moving_fields resolve_isResting)

text \<open>
  Between two bounces the sphere is integrated in steps of the frame time, and the speed
  it comes down with is not bounded by the speed it went up with. With the default
  parameters and a clock that reads \<open>0.016\<close> on every frame, the first 415 frames of a
  session leave the sphere just above the ground.
\<close>

lemma frames_415:
  "frames_physics default_params (replicate 415 0.016) (10, 0, False)
     = (1.001247219488121920149022623469312, 0.077951218007620009313913966832, False)"
  by (simp add: default_params_def restThreshold_def eval_nat_numeral)

lemma run_415:
  "physics (run default_params (replicate 415 0.016) session_start)
     = (1.001247219488121920149022623469312, 0.077951218007620009313913966832, False)"
  by (simp only: physics_run physics_session_start frames_415)

lemma run_416:
  "physics (animate default_params 0.016 (run default_params (replicate 415 0.016) session_start))
     = (1, 0.053538322972826013675852416521072, False)"
  by (simp only: physics_animate run_415) (simp add: default_params_def restThreshold_def)

lemma run_417:
  "physics (animate default_params 0.016
      (animate default_params 0.016 (run default_params (replicate 415 0.016) session_start)))
     = (1, 0.070114678701451136714096209182192112, False)"
  by (subst physics_animate, simp only: run_416) (simp add: default_params_def restThreshold_def)

text \<open>
  From then on every frame is a bounce: a sphere on the ground with an upward speed of at
  most \<open>0.107\<close> is below the ground again after one step of \<open>0.016\<close>, at a speed above the
  rest threshold, and leaves with an upward speed of at most \<open>0.107\<close> again.
\<close>

lemma micro_bounce_frame:
  assumes "0 < v" "v \<le> 0.107"
  shows "\<exists>v'. frame_physics default_params 0.016 (1, v, False) = (1, v', False) \<and> 0 < v' \<and> v' \<le> 0.107"
proof -
  let ?v1 = "v - 9.8 * 0.016"
  have neg: "?v1 < 0" using assms by simp
  have big: "\<bar>?v1\<bar> > 0.01" using assms by simp
  have low: "1 + ?v1 * 0.016 < 1" using neg by simp
  have eq: "frame_physics default_params 0.016 (1, v, False) = (1, - ?v1 * 0.7 * (1 - 0.03), False)"
    using low big by (simp add: default_params_def restThreshold_def Let_def)
  have "0 < - ?v1 * 0.7 * (1 - 0.03)" using neg by simp
  moreover have "- ?v1 * 0.7 * (1 - 0.03) \<le> 0.107" using assms by simp
  ultimately show ?thesis using eq by blast
qed

lemma micro_bounce_frames:
  "0 < v \<Longrightarrow> v \<le> 0.107 \<Longrightarrow>
     \<exists>v'. frames_physics default_params (replicate n 0.016) (1, v, False) = (1, v', False) \<and> 0 < v' \<and> v' \<le> 0.107"
proof (induction n arbitrary: v)
  case 0
  then show ?case by simp
next
  case (Suc n)
  from micro_bounce_frame [OF Suc.prems] obtain w
    where w: "frame_physics default_params 0.016 (1, v, False) = (1, w, False)" "0 < w" "w \<le> 0.107"
    by blast
  from Suc.IH [OF w(2,3)] show ?case
    using w(1) by simp
qed

lemma never_rests_from_416:
  "\<not> isResting (run default_params (replicate (416 + k) 0.016) session_start)"
proof -
  have "(416 :: nat) = Suc 415"
    by simp
  then have "run default_params (replicate 416 0.016) session_start
      = animate default_params 0.016 (run default_params (replicate 415 0.016) session_start)"
    by (simp only: run_replicate_Suc)
  then have "physics (run default_params (replicate (416 + k) 0.016) session_start)
      = frames_physics default_params (replicate k 0.016)
          (physics (animate default_params 0.016
             (run default_params (replicate 415 0.016) session_start)))"
    by (simp only: run_replicate_add physics_run)
  also have "\<dots> = frames_physics default_params (replicate k 0.016)
      (1, 0.053538322972826013675852416521072, False)"
    by (simp only: run_416)
  finally obtain w where
    "physics (run default_params (replicate (416 + k) 0.016) session_start) = (1, w, False)"
    using micro_bounce_frames [of "0.053538322972826013675852416521072" k] by auto
  then show ?thesis
    by (simp add: physics_def)
qed

lemma never_rests:
  "\<not> isResting (run default_params (replicate n 0.016) session_start)"
proof (cases "n < 416")
  case False
  then obtain k where "n = 416 + k"
    by (metis le_add_diff_inverse not_less)
  then show ?thesis
    using never_rests_from_416 by simp
next
  case True
  show ?thesis
  proof
    assume rest: "isResting (run default_params (replicate n 0.016) session_start)"
    from True have "416 = n + (416 - n)"
      by simp
    then have "run default_params (replicate 416 0.016) session_start
        = run default_params (replicate (416 - n) 0.016)
            (run default_params (replicate n 0.016) session_start)"
      by (metis run_replicate_add)
    with run_resting [OF rest]
    have "isResting (run default_params (replicate 416 0.016) session_start)"
      by simp
    with never_rests_from_416 [of 0] show False
      by simp
  qed
qed

text \<open>
  The same with three frames that can be followed by hand: a sphere of radius \<open>10\<close>
  starts on the ground, and the speeds it leaves its first three bounces with are
  \<open>0.1064672\<close>, \<open>0.0341759712\<close> and \<open>0.0832617155552\<close>.
\<close>

lemma rebound_speed_grows_radius_10:
  "velocity (run (default_params\<lparr>sphereRadius := 10\<rparr>) [0.016] session_start)
     = 0.1064672 \<and>
   velocity (run (default_params\<lparr>sphereRadius := 10\<rparr>) [0.016, 0.016] session_start)
     = 0.0341759712 \<and>
   velocity (run (default_params\<lparr>sphereRadius := 10\<rparr>) [0.016, 0.016, 0.016] session_start)
     = 0.0832617155552 \<and>
   \<not> isResting
     (run (default_params\<lparr>sphereRadius := 10\<rparr>) [0.016, 0.016, 0.016] session_start)"
proof -
  let ?p = "default_params\<lparr>sphereRadius := 10\<rparr>"
  have "physics (run ?p [0.016] session_start) = (10, 0.1064672, False)"
    and "physics (run ?p [0.016, 0.016] session_start) = (10, 0.0341759712, False)"
    and "physics (run ?p [0.016, 0.016, 0.016] session_start) = (10, 0.0832617155552, False)"
    by (simp_all only: physics_run physics_session_start)
      (simp_all add: default_params_def restThreshold_def)
  then show ?thesis
    by (simp add: physics_def)
qed

text \<open>
  Claim C6 says that the speeds after successive bounces decrease strictly until a
  contact at or below the rest threshold, and that the sphere then rests after finitely
  many frames. The code at the default parameters, with the clock reading \<open>0.016\<close> on
  every frame: frames 416 and 417 of the session are successive bounces, the sphere
  leaves the first at about \<open>0.0535\<close> and the second at about \<open>0.0701\<close>, and the resting flag
  is never set, however many frames follow.
\<close>

theorem energy_decay_fails:
  "bounce default_params 0.016 (run default_params (replicate 415 0.016) session_start) \<and>
   bounce default_params 0.016
     (animate default_params 0.016 (run default_params (replicate 415 0.016) session_start)) \<and>
   velocity (animate default_params 0.016
       (run default_params (replicate 415 0.016) session_start))
     = 0.053538322972826013675852416521072 \<and>
   velocity (animate default_params 0.016 (animate default_params 0.016
       (run default_params (replicate 415 0.016) session_start)))
     = 0.070114678701451136714096209182192112 \<and>
   (\<forall>n. \<not> isResting (run default_params (replicate n 0.016) session_start))"
proof -
  note f415 = physics_fields [OF run_415]
  note f416 = physics_fields [OF run_416]
  note f417 = physics_fields [OF run_417]
  have b1: "bounce default_params 0.016 (run default_params (replicate 415 0.016) session_start)"
    unfolding bounce_def contact_def integrate_fields
    by (simp only: f415) (simp add: default_params_def restThreshold_def)
  have b2: "bounce default_params 0.016
     (animate default_params 0.016 (run default_params (replicate 415 0.016) session_start))"
    unfolding bounce_def contact_def integrate_fields
    by (simp only: f416) (simp add: default_params_def restThreshold_def)
  show ?thesis
    using b1 b2 f416 f417 never_rests by blast
qed

end
